theory Spec2Isabelle
  imports Main
begin

section \<open>Values, errors and the program state\<close>

text \<open>
  The fragment of JavaScript values that the container can be handed. Objects are
  references into a heap, so equality of two \<open>JObj\<close> values is reference equality.
  Numbers are modelled as integers plus \<open>NaN\<close>; the only thing the program asks of a
  value is whether it is truthy.
\<close>

datatype jsval =
    JUndefined
  | JNull
  | JBool bool
  | JNum int
  | JNaN
  | JStr string
  | JObj nat

fun truthy :: "jsval \<Rightarrow> bool" where
  "truthy JUndefined = False"
| "truthy JNull = False"
| "truthy (JBool b) = b"
| "truthy (JNum n) = (n \<noteq> 0)"
| "truthy JNaN = False"
| "truthy (JStr s) = (s \<noteq> [])"
| "truthy (JObj r) = True"

text \<open>
  A thrown \<open>Error\<close> carries its message. A message is a template literal: literal
  text and interpolated class identities (\<^verbatim>\<open>${token}\<close>). \<open>render\<close> produces the
  string, given how the runtime prints a class. \<open>TypeError\<close> is what the runtime
  raises on a property access on \<open>undefined\<close>/\<open>null\<close>, on a call of something that
  is not a method of the receiver, and on an assignment to an accessor without setter.
\<close>

datatype 'k part = Lit string | Interp 'k

datatype 'k error = Error "'k part list" | TypeError

fun render_part :: "('k \<Rightarrow> string) \<Rightarrow> 'k part \<Rightarrow> string" where
  "render_part toString (Lit s) = s"
| "render_part toString (Interp token) = toString token"

definition render :: "('k \<Rightarrow> string) \<Rightarrow> 'k part list \<Rightarrow> string" where
  "render toString ps = concat (map (render_part toString) ps)"

text \<open>
  An object has the class it was constructed from (its prototype) and its own
  properties. The state of the running module:
  \<^item> \<open>services\<close>: the \<^verbatim>\<open>Map\<close> of the one \<^verbatim>\<open>container\<close>;
  \<^item> \<open>heap\<close>: the objects allocated so far, a reference being an index;
  \<^item> \<open>accessors\<close>: the getters that \<^verbatim>\<open>Object.defineProperty\<close> has put on class
    prototypes, each represented by the value its closure captured;
  \<^item> \<open>console\<close>: the lines written by \<^verbatim>\<open>console.log\<close>;
  \<^item> \<open>resolutions\<close>: instrumentation, the tokens \<^verbatim>\<open>container.resolve\<close> was called
    with, oldest first. No operation reads it.
\<close>

record 'k obj =
  class_of :: 'k
  own :: "string \<rightharpoonup> jsval"

record 'k world =
  services :: "'k \<rightharpoonup> jsval"
  heap :: "'k obj list"
  accessors :: "'k \<times> string \<rightharpoonup> jsval"
  console :: "string list"
  resolutions :: "'k list"

type_synonym ('k, 'a) action = "'k world \<Rightarrow> ('k error + 'a) \<times> 'k world"

definition ok :: "'a \<Rightarrow> ('k, 'a) action" where
  "ok x w = (Inr x, w)"

definition throw :: "'k error \<Rightarrow> ('k, 'a) action" where
  "throw e w = (Inl e, w)"

text \<open>Sequencing: an exception skips what follows; the state written so far stays.\<close>

definition andThen :: "('k, 'a) action \<Rightarrow> ('a \<Rightarrow> ('k, 'b) action) \<Rightarrow> ('k, 'b) action" where
  "andThen m f w = (case m w of (Inl e, w') \<Rightarrow> (Inl e, w') | (Inr x, w') \<Rightarrow> f x w')"

text \<open>The module starts with \<^verbatim>\<open>new Container()\<close>: an empty map, and nothing else.\<close>

definition world0 :: "'k world" where
  "world0 = \<lparr>services = Map.empty, heap = [], accessors = Map.empty, console = [],
             resolutions = []\<rparr>"

section \<open>The container\<close>

text \<open>\<^verbatim>\<open>Map.prototype.get\<close>: \<open>undefined\<close> for a key without entry.\<close>

definition Map_get :: "('a \<rightharpoonup> jsval) \<Rightarrow> 'a \<Rightarrow> jsval" where
  "Map_get m k = (case m k of None \<Rightarrow> JUndefined | Some v \<Rightarrow> v)"

definition register :: "'k \<Rightarrow> jsval \<Rightarrow> ('k, unit) action" where
  "register token inst w = (Inr (), w\<lparr>services := (services w)(token \<mapsto> inst)\<rparr>)"

definition resolve :: "'k \<Rightarrow> ('k, jsval) action" where
  "resolve token w =
     (let w1 = w\<lparr>resolutions := resolutions w @ [token]\<rparr>;
          service = Map_get (services w1) token
      in if \<not> truthy service
         then (Inl (Error [Lit ''Service not found for token: '', Interp token]), w1)
         else (Inr service, w1))"

text \<open>A run of \<^verbatim>\<open>container.register\<close> calls, in order.\<close>

fun registerAll :: "('k \<times> jsval) list \<Rightarrow> 'k world \<Rightarrow> 'k world" where
  "registerAll [] w = w"
| "registerAll ((token, inst) # rest) w = registerAll rest (snd (register token inst w))"

text \<open>\<open>n\<close> calls of \<^verbatim>\<open>container.resolve(token)\<close> in a row; the results, oldest first.\<close>

fun resolveN :: "nat \<Rightarrow> 'k \<Rightarrow> 'k world \<Rightarrow> ('k error + jsval) list \<times> 'k world" where
  "resolveN 0 token w = ([], w)"
| "resolveN (Suc n) token w =
     (case resolve token w of (x, w') \<Rightarrow>
        (case resolveN n token w' of (xs, w'') \<Rightarrow> (x # xs, w'')))"

section \<open>The decorators\<close>

text \<open>
  \<^verbatim>\<open>new C\<close> allocates a fresh object of class \<open>C\<close> and runs the constructor body of
  \<open>C\<close> on it. The constructor bodies are the classes' own code, so they are a
  parameter here: \<open>ctor C this\<close> is the body of \<open>C\<close>'s constructor. No constructor
  of the repository returns a value, so the result of \<^verbatim>\<open>new C\<close> is the allocated
  object.
\<close>

type_synonym 'k constructors = "'k \<Rightarrow> jsval \<Rightarrow> ('k, unit) action"

definition new :: "'k constructors \<Rightarrow> 'k \<Rightarrow> ('k, jsval) action" where
  "new ctor C w =
     (let r = length (heap w);
          w1 = w\<lparr>heap := heap w @ [\<lparr>class_of = C, own = Map.empty\<rparr>]\<rparr>
      in andThen (ctor C (JObj r)) (\<lambda>u. ok (JObj r)) w1)"

text \<open>
  \<^verbatim>\<open>container.register(BaseClassEntity, new BaseClassEntity)\<close>: the argument is
  evaluated before the call.
\<close>

definition Injectable :: "'k constructors \<Rightarrow> 'k \<Rightarrow> ('k, unit) action" where
  "Injectable ctor BaseClassEntity =
     andThen (new ctor BaseClassEntity) (\<lambda>inst. register BaseClassEntity inst)"

text \<open>
  \<^verbatim>\<open>Object.defineProperty(target, propertyKey, {get: () => serviceInstance, ...})\<close>;
  \<open>target\<close> is the prototype of the decorated class, identified with the class.
\<close>

definition defineProperty :: "'k \<Rightarrow> string \<Rightarrow> jsval \<Rightarrow> ('k, unit) action" where
  "defineProperty target propertyKey serviceInstance w =
     (Inr (), w\<lparr>accessors := (accessors w)((target, propertyKey) \<mapsto> serviceInstance)\<rparr>)"

definition Inject :: "'k \<Rightarrow> 'k \<Rightarrow> string \<Rightarrow> ('k, unit) action" where
  "Inject token target propertyKey =
     andThen (resolve token)
       (\<lambda>serviceInstance. defineProperty target propertyKey serviceInstance)"

section \<open>Property access\<close>

text \<open>
  Reading \<^verbatim>\<open>v.key\<close>: an own property of the object first, then a getter on the
  prototype of its class, else \<open>undefined\<close>. Reading a property of \<open>undefined\<close> or
  \<open>null\<close> raises. Primitives have none of the properties the program asks for.
\<close>

definition getProp :: "jsval \<Rightarrow> string \<Rightarrow> ('k, jsval) action" where
  "getProp v key w =
     (case v of
        JObj r \<Rightarrow>
          (if r < length (heap w)
           then (case own (heap w ! r) key of
                   Some x \<Rightarrow> (Inr x, w)
                 | None \<Rightarrow> (Inr (Map_get (accessors w) (class_of (heap w ! r), key)), w))
           else (Inl TypeError, w))
      | JUndefined \<Rightarrow> (Inl TypeError, w)
      | JNull \<Rightarrow> (Inl TypeError, w)
      | _ \<Rightarrow> (Inr JUndefined, w))"

text \<open>
  Writing \<^verbatim>\<open>this.key = x\<close> in a class body (strict mode): an own property is
  overwritten; without one, a getter without setter on the prototype makes the
  assignment raise, and otherwise the own property is created.
\<close>

definition setOwn :: "nat \<Rightarrow> string \<Rightarrow> jsval \<Rightarrow> 'k world \<Rightarrow> 'k world" where
  "setOwn r key x w =
     w\<lparr>heap := (heap w)[r := (heap w ! r)\<lparr>own := (own (heap w ! r))(key \<mapsto> x)\<rparr>]\<rparr>"

definition setProp :: "jsval \<Rightarrow> string \<Rightarrow> jsval \<Rightarrow> ('k, unit) action" where
  "setProp v key x w =
     (case v of
        JObj r \<Rightarrow>
          (if r < length (heap w)
           then (case own (heap w ! r) key of
                   Some old \<Rightarrow> (Inr (), setOwn r key x w)
                 | None \<Rightarrow>
                     (case accessors w (class_of (heap w ! r), key) of
                        Some getter \<Rightarrow> (Inl TypeError, w)
                      | None \<Rightarrow> (Inr (), setOwn r key x w)))
           else (Inl TypeError, w))
      | _ \<Rightarrow> (Inl TypeError, w))"

text \<open>Reading the same property \<open>n\<close> times in a row; the results, oldest first.\<close>

fun reads :: "nat \<Rightarrow> jsval \<Rightarrow> string \<Rightarrow> 'k world \<Rightarrow> ('k error + jsval) list \<times> 'k world" where
  "reads 0 v key w = ([], w)"
| "reads (Suc n) v key w =
     (case getProp v key w of (x, w') \<Rightarrow>
        (case reads n v key w' of (xs, w'') \<Rightarrow> (x # xs, w'')))"

section \<open>The services of the example\<close>

datatype cls =
    ConfigService
  | ConsoleLoggerService
  | FileLoggerService
  | CloudLoggerService
  | LoggerFactory
  | UserService
  | Main

text \<open>
  Types are erased at run time: a method call \<^verbatim>\<open>v.m(...)\<close> runs the method \<open>m\<close> of the
  class \<open>v\<close> was constructed from, and raises when \<open>v\<close> is not an object or its class has
  no such method. (No class of the example has an accessor or own property named like one
  of its methods.)
\<close>

definition classOf :: "'k world \<Rightarrow> jsval \<Rightarrow> 'k option" where
  "classOf w v =
     (case v of
        JObj r \<Rightarrow> (if r < length (heap w) then Some (class_of (heap w ! r)) else None)
      | _ \<Rightarrow> None)"

definition console_clear :: "('k, unit) action" where
  "console_clear w = (Inr (), w\<lparr>console := []\<rparr>)"

definition console_log :: "string \<Rightarrow> ('k, unit) action" where
  "console_log line w = (Inr (), w\<lparr>console := console w @ [line]\<rparr>)"

text \<open>\<^verbatim>\<open>ConfigService.getEnvConfig\<close> as the source has it.\<close>

definition getEnvConfig :: "string \<Rightarrow> string" where
  "getEnvConfig configName = ''console''"

text \<open>
  The example is stated for any body \<open>envConfig\<close> of \<^verbatim>\<open>getEnvConfig\<close>, so that the
  configuration's reported value can be varied; the source is the instance
  \<open>envConfig = getEnvConfig\<close>.
\<close>

definition call_getEnvConfig :: "(string \<Rightarrow> string) \<Rightarrow> jsval \<Rightarrow> string \<Rightarrow> (cls, string) action" where
  "call_getEnvConfig envConfig this configName w =
     (case classOf w this of
        Some ConfigService \<Rightarrow> (Inr (envConfig configName), w)
      | _ \<Rightarrow> (Inl TypeError, w))"

definition ConsoleLoggerService_log :: "string \<Rightarrow> (cls, unit) action" where
  "ConsoleLoggerService_log message = console_log (''[console]: '' @ message)"

definition FileLoggerService_log :: "string \<Rightarrow> (cls, unit) action" where
  "FileLoggerService_log message = console_log (''[file]: '' @ message)"

definition CloudLoggerService_log :: "string \<Rightarrow> (cls, unit) action" where
  "CloudLoggerService_log message = console_log (''[cloud]: '' @ message)"

definition call_log :: "jsval \<Rightarrow> string \<Rightarrow> (cls, unit) action" where
  "call_log this message w =
     (case classOf w this of
        Some ConsoleLoggerService \<Rightarrow> ConsoleLoggerService_log message w
      | Some FileLoggerService \<Rightarrow> FileLoggerService_log message w
      | Some CloudLoggerService \<Rightarrow> CloudLoggerService_log message w
      | _ \<Rightarrow> (Inl TypeError, w))"

definition getLogger :: "(string \<Rightarrow> string) \<Rightarrow> jsval \<Rightarrow> (cls, jsval) action" where
  "getLogger envConfig this =
     andThen (getProp this ''configService'') (\<lambda>configService.
     andThen (call_getEnvConfig envConfig configService ''loggerConfig'') (\<lambda>config.
       if config = ''console'' then getProp this ''consoleLogger''
       else if config = ''file'' then getProp this ''fileLogger''
       else if config = ''cloud'' then getProp this ''cloudLogger''
       else throw (Error [Lit ''unknown logger service instance''])))"

definition call_getLogger :: "(string \<Rightarrow> string) \<Rightarrow> jsval \<Rightarrow> (cls, jsval) action" where
  "call_getLogger envConfig this w =
     (case classOf w this of
        Some LoggerFactory \<Rightarrow> getLogger envConfig this w
      | _ \<Rightarrow> (Inl TypeError, w))"

definition UserService_constructor :: "(string \<Rightarrow> string) \<Rightarrow> jsval \<Rightarrow> (cls, unit) action" where
  "UserService_constructor envConfig this =
     andThen (getProp this ''loggerFactory'') (\<lambda>loggerFactory.
     andThen (call_getLogger envConfig loggerFactory) (\<lambda>logger.
       setProp this ''loggerService'' logger))"

definition login :: "jsval \<Rightarrow> string \<Rightarrow> string \<Rightarrow> (cls, unit) action" where
  "login this username password =
     andThen (getProp this ''loggerService'') (\<lambda>loggerService.
       call_log loggerService (''logging in user with '' @ username @ '' and '' @ password))"

definition updateUserName :: "jsval \<Rightarrow> string \<Rightarrow> (cls, unit) action" where
  "updateUserName this newUsername =
     andThen (getProp this ''loggerService'') (\<lambda>loggerService.
       call_log loggerService (''updating username '' @ newUsername))"

definition logOut :: "jsval \<Rightarrow> (cls, unit) action" where
  "logOut this =
     andThen (getProp this ''loggerService'') (\<lambda>loggerService.
       call_log loggerService ''logging out user'')"

definition call_login :: "jsval \<Rightarrow> string \<Rightarrow> string \<Rightarrow> (cls, unit) action" where
  "call_login this username password w =
     (case classOf w this of
        Some UserService \<Rightarrow> login this username password w
      | _ \<Rightarrow> (Inl TypeError, w))"

definition call_updateUserName :: "jsval \<Rightarrow> string \<Rightarrow> (cls, unit) action" where
  "call_updateUserName this newUsername w =
     (case classOf w this of
        Some UserService \<Rightarrow> updateUserName this newUsername w
      | _ \<Rightarrow> (Inl TypeError, w))"

definition call_logOut :: "jsval \<Rightarrow> (cls, unit) action" where
  "call_logOut this w =
     (case classOf w this of
        Some UserService \<Rightarrow> logOut this w
      | _ \<Rightarrow> (Inl TypeError, w))"

definition init :: "jsval \<Rightarrow> (cls, unit) action" where
  "init this =
     andThen (getProp this ''userService'') (\<lambda>userService.
     andThen (call_login userService ''john'' ''john@123'') (\<lambda>u.
     andThen (getProp this ''userService'') (\<lambda>userService.
     andThen (call_updateUserName userService ''bob'') (\<lambda>u.
     andThen (getProp this ''userService'') (\<lambda>userService.
       call_logOut userService)))))"

definition call_init :: "jsval \<Rightarrow> (cls, unit) action" where
  "call_init this w =
     (case classOf w this of
        Some Main \<Rightarrow> init this w
      | _ \<Rightarrow> (Inl TypeError, w))"

text \<open>
  The constructor bodies: \<^verbatim>\<open>UserService\<close> has one; \<^verbatim>\<open>Main\<close>'s is empty and the
  other classes have none.
\<close>

definition constructors :: "(string \<Rightarrow> string) \<Rightarrow> cls constructors" where
  "constructors envConfig C this =
     (case C of
        UserService \<Rightarrow> UserService_constructor envConfig this
      | _ \<Rightarrow> ok ())"

section \<open>The module, top to bottom\<close>

fun runAll :: "('k, unit) action list \<Rightarrow> ('k, unit) action" where
  "runAll [] = ok ()"
| "runAll (a # as) = andThen a (\<lambda>u. runAll as)"

text \<open>
  The class declarations in source order. The decorators of a class's properties run
  when its body has been evaluated, in declaration order, and before the decorator of
  the class itself.
\<close>

definition declarations :: "(string \<Rightarrow> string) \<Rightarrow> (cls, unit) action" where
  "declarations envConfig =
     runAll
       [console_clear,
        Injectable (constructors envConfig) ConfigService,
        Injectable (constructors envConfig) ConsoleLoggerService,
        Injectable (constructors envConfig) FileLoggerService,
        Injectable (constructors envConfig) CloudLoggerService,
        Inject ConfigService LoggerFactory ''configService'',
        Inject ConsoleLoggerService LoggerFactory ''consoleLogger'',
        Inject FileLoggerService LoggerFactory ''fileLogger'',
        Inject CloudLoggerService LoggerFactory ''cloudLogger'',
        Injectable (constructors envConfig) LoggerFactory,
        Inject LoggerFactory UserService ''loggerFactory'',
        Injectable (constructors envConfig) UserService,
        Inject UserService Main ''userService'',
        Injectable (constructors envConfig) Main]"

text \<open>\<^verbatim>\<open>const main = container.resolve(Main); main.init()\<close>\<close>

definition program :: "(string \<Rightarrow> string) \<Rightarrow> (cls, unit) action" where
  "program envConfig =
     andThen (declarations envConfig) (\<lambda>u.
     andThen (resolve Main) (\<lambda>main. call_init main))"

section \<open>The registry\<close>

lemma services_register:
  "services (snd (register token inst w)) = (services w)(token \<mapsto> inst)"
  by (simp add: register_def)

lemma services_registerAll_other:
  "token \<notin> fst ` set regs \<Longrightarrow> services (registerAll regs w) token = services w token"
  by (induction regs arbitrary: w) (auto simp: services_register)

lemma services_registerAll_last:
  "token \<notin> fst ` set later \<Longrightarrow>
   services (registerAll (earlier @ (token, inst) # later) w) token = Some inst"
proof (induction earlier arbitrary: w)
  case Nil
  then show ?case by (simp add: services_registerAll_other services_register)
next
  case (Cons p earlier)
  then show ?case by (cases p) simp
qed

lemma resolve_result:
  "resolve token w =
     (if truthy (Map_get (services w) token) then Inr (Map_get (services w) token)
      else Inl (Error [Lit ''Service not found for token: '', Interp token]),
      w\<lparr>resolutions := resolutions w @ [token]\<rparr>)"
  by (simp add: resolve_def Let_def)

lemma resolveN_registered:
  "services w token = Some inst \<Longrightarrow> truthy inst \<Longrightarrow>
   resolveN n token w =
     (replicate n (Inr inst), w\<lparr>resolutions := resolutions w @ replicate n token\<rparr>)"
proof (induction n arbitrary: w)
  case 0
  then show ?case by simp
next
  case (Suc n)
  let ?w1 = "w\<lparr>resolutions := resolutions w @ [token]\<rparr>"
  have first: "resolve token w = (Inr inst, ?w1)"
    using Suc.prems by (simp add: resolve_result Map_get_def)
  have "services ?w1 token = Some inst"
    using Suc.prems by simp
  then have rest: "resolveN n token ?w1 =
      (replicate n (Inr inst), ?w1\<lparr>resolutions := resolutions ?w1 @ replicate n token\<rparr>)"
    using Suc.IH Suc.prems(2) by blast
  show ?case
    by (simp add: first rest replicate_app_Cons_same)
qed

text \<open>
  Claim C1, as the code has it. On an identity that no \<open>register\<close> call named since
  the container was created, \<open>resolve\<close> raises the error whose message is
  \<^verbatim>\<open>Service not found for token: \<close> followed by the printed identity; a value that
  \<open>resolve\<close> returns is the stored one and is truthy, so never \<open>null\<close> or
  \<open>undefined\<close>. \<open>resolve\<close> raises exactly when the identity has no entry or its
  entry holds a falsy value, and then always with that error.
\<close>

theorem resolve_fails_iff:
  "(token \<notin> fst ` set regs \<longrightarrow>
      fst (resolve token (registerAll regs world0)) =
        Inl (Error [Lit ''Service not found for token: '', Interp token]))
   \<and> ((\<exists>e. fst (resolve token w) = Inl e) =
        (services w token = None \<or> (\<exists>v. services w token = Some v \<and> \<not> truthy v)))
   \<and> (\<forall>e. fst (resolve token w) = Inl e \<longrightarrow>
        e = Error [Lit ''Service not found for token: '', Interp token])
   \<and> (\<forall>v. fst (resolve token w) = Inr v \<longrightarrow> services w token = Some v \<and> truthy v)
   \<and> render toString [Lit ''Service not found for token: '', Interp token] =
        ''Service not found for token: '' @ toString token"
proof (intro conjI)
  show "token \<notin> fst ` set regs \<longrightarrow>
      fst (resolve token (registerAll regs world0)) =
        Inl (Error [Lit ''Service not found for token: '', Interp token])"
  proof
    assume "token \<notin> fst ` set regs"
    then have "services (registerAll regs world0) token = None"
      by (simp add: services_registerAll_other world0_def)
    then show "fst (resolve token (registerAll regs world0)) =
        Inl (Error [Lit ''Service not found for token: '', Interp token])"
      by (simp add: resolve_result Map_get_def)
  qed
next
  show "(\<exists>e. fst (resolve token w) = Inl e) =
        (services w token = None \<or> (\<exists>v. services w token = Some v \<and> \<not> truthy v))"
    by (cases "services w token") (simp_all add: resolve_result Map_get_def)
next
  show "\<forall>e. fst (resolve token w) = Inl e \<longrightarrow>
        e = Error [Lit ''Service not found for token: '', Interp token]"
    by (auto simp: resolve_result split: if_splits)
next
  show "\<forall>v. fst (resolve token w) = Inr v \<longrightarrow> services w token = Some v \<and> truthy v"
    by (cases "services w token") (auto simp: resolve_result Map_get_def split: if_splits)
next
  show "render toString [Lit ''Service not found for token: '', Interp token] =
        ''Service not found for token: '' @ toString token"
    by (simp add: render_def)
qed

text \<open>C1 at a container with two entries: \<open>Main\<close> was never registered.\<close>

theorem resolve_fails_iff_witness:
  "fst (resolve Main (registerAll [(ConfigService, JObj 0), (UserService, JObj 1)] world0)) =
     Inl (Error [Lit ''Service not found for token: '', Interp Main])
   \<and> fst (resolve UserService
        (registerAll [(ConfigService, JObj 0), (UserService, JObj 1)] world0)) = Inr (JObj 1)"
proof -
  have "Main \<notin> fst ` set [(ConfigService, JObj 0), (UserService, JObj 1)]"
    by simp
  then have "fst (resolve Main (registerAll [(ConfigService, JObj 0), (UserService, JObj 1)] world0)) =
     Inl (Error [Lit ''Service not found for token: '', Interp Main])"
    using resolve_fails_iff [of Main "[(ConfigService, JObj 0), (UserService, JObj 1)]"]
    by blast
  moreover have "fst (resolve UserService
        (registerAll [(ConfigService, JObj 0), (UserService, JObj 1)] world0)) = Inr (JObj 1)"
    by (simp add: resolve_result Map_get_def services_register world0_def)
  ultimately show ?thesis by simp
qed

text \<open>
  C1 as stated (\<open>resolve\<close> fails exactly when no entry exists) fails: after
  \<^verbatim>\<open>register(FileLoggerService, 0)\<close> the entry exists and \<open>resolve\<close> raises.
\<close>

theorem resolve_fails_with_entry:
  "services (snd (register FileLoggerService (JNum 0) world0)) FileLoggerService \<noteq> None
   \<and> fst (resolve FileLoggerService (snd (register FileLoggerService (JNum 0) world0))) =
       Inl (Error [Lit ''Service not found for token: '', Interp FileLoggerService])"
  by (simp add: resolve_result Map_get_def services_register)

text \<open>
  Claim C4, as the code has it. After \<open>register token inst\<close> with a truthy
  \<open>inst\<close>, and whatever was registered before and (under other identities) after,
  each of \<open>n\<close> calls of \<open>resolve token\<close> returns \<open>inst\<close> itself (for an object,
  the same reference), and the registry's entries are as before the calls.
\<close>

theorem resolve_returns_registered:
  assumes "token \<notin> fst ` set later" and "truthy inst"
  shows "fst (resolveN n token (registerAll (earlier @ (token, inst) # later) w)) =
           replicate n (Inr inst)
         \<and> services (snd (resolveN n token (registerAll (earlier @ (token, inst) # later) w))) =
           services (registerAll (earlier @ (token, inst) # later) w)"
proof -
  have "services (registerAll (earlier @ (token, inst) # later) w) token = Some inst"
    using assms(1) by (rule services_registerAll_last)
  then show ?thesis
    using assms(2) by (simp add: resolveN_registered)
qed

text \<open>C4 at three calls for the second of three registered identities.\<close>

theorem resolve_returns_registered_witness:
  "fst (resolveN 3 ConsoleLoggerService
         (registerAll ([(ConfigService, JObj 0)] @ (ConsoleLoggerService, JObj 1) #
             [(FileLoggerService, JObj 2)]) world0)) =
     [Inr (JObj 1), Inr (JObj 1), Inr (JObj 1)]"
proof -
  have a: "ConsoleLoggerService \<notin> fst ` set [(FileLoggerService, JObj 2)]" by simp
  have b: "truthy (JObj 1)" by simp
  show ?thesis
    using resolve_returns_registered [OF a b, of 3 "[(ConfigService, JObj 0)]" world0]
    by (simp add: numeral_3_eq_3)
qed

text \<open>
  C4 as stated (for every registered instance) fails: an identity registered with
  \<open>null\<close> is not resolved to \<open>null\<close>; \<open>resolve\<close> raises.
\<close>

theorem resolve_registered_null:
  "fst (resolve ConfigService (registerAll [(ConfigService, JNull)] world0)) =
     Inl (Error [Lit ''Service not found for token: '', Interp ConfigService])"
  by (simp add: resolve_result Map_get_def services_register)

text \<open>
  Claim C5, as the code has it. A second \<open>register\<close> on the same identity with a
  different value replaces the entry: the identity has the one entry, the second value.
  \<open>resolve\<close> then returns the second value when it is truthy (and raises when it is
  falsy), and in no case returns the first.
\<close>

theorem register_overwrites:
  assumes "second \<noteq> first"
  shows "services (snd (register token second (snd (register token first w)))) =
           (services w)(token \<mapsto> second)
         \<and> fst (resolve token (snd (register token second (snd (register token first w))))) =
           (if truthy second then Inr second
            else Inl (Error [Lit ''Service not found for token: '', Interp token]))
         \<and> fst (resolve token (snd (register token second (snd (register token first w))))) \<noteq>
           Inr first"
  using assms by (simp add: resolve_result Map_get_def services_register)

text \<open>C5 at two objects registered under \<open>Main\<close> in turn.\<close>

theorem register_overwrites_witness:
  "services (snd (register Main (JObj 8) (snd (register Main (JObj 7) world0)))) Main =
     Some (JObj 8)
   \<and> fst (resolve Main (snd (register Main (JObj 8) (snd (register Main (JObj 7) world0))))) =
     Inr (JObj 8)"
proof -
  have "JObj 8 \<noteq> JObj 7" by simp
  from register_overwrites [OF this, of Main world0] show ?thesis by simp
qed

text \<open>
  C5 as stated (afterwards \<open>resolve\<close> returns the second instance) fails when the
  second value is \<open>undefined\<close>: \<open>resolve\<close> raises.
\<close>

theorem register_overwrites_falsy:
  "fst (resolve UserService
     (snd (register UserService JUndefined (snd (register UserService (JObj 0) world0))))) =
     Inl (Error [Lit ''Service not found for token: '', Interp UserService])"
  by (simp add: resolve_result Map_get_def services_register)

text \<open>
  Claim C10. \<open>resolve\<close> tests the stored value for truthiness: after \<open>register\<close>
  with a falsy value the entry exists, and \<open>resolve\<close> raises the lookup error.
\<close>

theorem resolve_tests_truthiness:
  assumes "\<not> truthy inst"
  shows "services (snd (register token inst w)) token = Some inst
         \<and> fst (resolve token (snd (register token inst w))) =
           Inl (Error [Lit ''Service not found for token: '', Interp token])"
  using assms by (simp add: resolve_result Map_get_def services_register)

text \<open>C10 at \<open>null\<close>, \<open>undefined\<close>, \<open>0\<close>, the empty string and \<open>false\<close>.\<close>

theorem resolve_tests_truthiness_witness:
  "fst (resolve CloudLoggerService (snd (register CloudLoggerService JNull world0))) =
     Inl (Error [Lit ''Service not found for token: '', Interp CloudLoggerService])
   \<and> fst (resolve CloudLoggerService (snd (register CloudLoggerService JUndefined world0))) =
     Inl (Error [Lit ''Service not found for token: '', Interp CloudLoggerService])
   \<and> fst (resolve CloudLoggerService (snd (register CloudLoggerService (JNum 0) world0))) =
     Inl (Error [Lit ''Service not found for token: '', Interp CloudLoggerService])
   \<and> fst (resolve CloudLoggerService (snd (register CloudLoggerService (JStr '''') world0))) =
     Inl (Error [Lit ''Service not found for token: '', Interp CloudLoggerService])
   \<and> fst (resolve CloudLoggerService (snd (register CloudLoggerService (JBool False) world0))) =
     Inl (Error [Lit ''Service not found for token: '', Interp CloudLoggerService])"
proof -
  have f: "\<not> truthy JNull" "\<not> truthy JUndefined" "\<not> truthy (JNum 0)" "\<not> truthy (JStr '''')"
    "\<not> truthy (JBool False)"
    by simp_all
  show ?thesis
    using resolve_tests_truthiness [OF f(1), of CloudLoggerService world0]
      resolve_tests_truthiness [OF f(2), of CloudLoggerService world0]
      resolve_tests_truthiness [OF f(3), of CloudLoggerService world0]
      resolve_tests_truthiness [OF f(4), of CloudLoggerService world0]
      resolve_tests_truthiness [OF f(5), of CloudLoggerService world0]
    by blast
qed

section \<open>The decorators: \<open>Inject\<close> and \<open>Injectable\<close>\<close>

lemma Inject_result:
  "Inject token target propertyKey w =
     (if truthy (Map_get (services w) token)
      then (Inr (), w\<lparr>resolutions := resolutions w @ [token],
                       accessors := (accessors w)((target, propertyKey) \<mapsto>
                                      Map_get (services w) token)\<rparr>)
      else (Inl (Error [Lit ''Service not found for token: '', Interp token]),
            w\<lparr>resolutions := resolutions w @ [token]\<rparr>))"
  by (simp add: Inject_def andThen_def resolve_result defineProperty_def)

lemma reads_unchanged:
  "getProp v key w = (x, w) \<Longrightarrow> reads n v key w = (replicate n x, w)"
  by (induction n) simp_all

lemma getProp_accessor:
  "r < length (heap w) \<Longrightarrow> own (heap w ! r) key = None \<Longrightarrow>
   accessors w (class_of (heap w ! r), key) = Some x \<Longrightarrow>
   getProp (JObj r) key w = (Inr x, w)"
  by (simp add: getProp_def Map_get_def)

text \<open>
  Claim C2. Applying \<open>Inject token\<close> to a property while \<open>token\<close> has no entry
  raises the lookup error then and there, when the decorator runs for the class being
  defined; no accessor is installed, so nothing is left to fail at a later read.
\<close>

theorem Inject_fails_at_definition:
  assumes "services w token = None"
  shows "Inject token target propertyKey w =
           (Inl (Error [Lit ''Service not found for token: '', Interp token]),
            w\<lparr>resolutions := resolutions w @ [token]\<rparr>)
         \<and> accessors (snd (Inject token target propertyKey w)) = accessors w"
  using assms by (simp add: Inject_result Map_get_def)

text \<open>
  C2 at a class \<open>Main\<close> declared before \<open>UserService\<close> is registered: the
  declaration raises, and \<open>Main\<close> is neither constructed nor registered.
\<close>

theorem Inject_fails_at_definition_witness:
  "runAll [Inject UserService Main ''userService'', Injectable (\<lambda>C this. ok ()) Main] world0 =
     (Inl (Error [Lit ''Service not found for token: '', Interp UserService]),
      world0\<lparr>resolutions := [UserService]\<rparr>)"
proof -
  have "services (world0 :: cls world) UserService = None"
    by (simp add: world0_def)
  from Inject_fails_at_definition [OF this, of Main "''userService''"]
  show ?thesis
    by (simp add: andThen_def world0_def)
qed

text \<open>
  Claim C3. A successful \<open>Inject token target propertyKey\<close> calls \<open>resolve\<close>
  once, when the decorator runs. In any later state in which that accessor is still the
  one installed, \<open>n\<close> reads of the property through an object of the class (that has
  no own property of that name) all return the instance resolved then, and leave the
  state as it is: the count of resolutions does not grow.
\<close>

theorem Inject_resolves_once:
  assumes inj: "Inject token target propertyKey w = (Inr (), w')"
      and kept: "accessors w'' (target, propertyKey) = accessors w' (target, propertyKey)"
      and recv: "r < length (heap w'')" "class_of (heap w'' ! r) = target"
                "own (heap w'' ! r) propertyKey = None"
  shows "resolutions w' = resolutions w @ [token]
         \<and> fst (resolve token w) = Inr (Map_get (services w) token)
         \<and> reads n (JObj r) propertyKey w'' =
             (replicate n (Inr (Map_get (services w) token)), w'')"
proof -
  have t: "truthy (Map_get (services w) token)"
    using inj by (simp add: Inject_result split: if_splits)
  have w': "w' = w\<lparr>resolutions := resolutions w @ [token],
                    accessors := (accessors w)((target, propertyKey) \<mapsto>
                                   Map_get (services w) token)\<rparr>"
    using inj t by (simp add: Inject_result)
  have "accessors w'' (class_of (heap w'' ! r), propertyKey) = Some (Map_get (services w) token)"
    using kept recv(2) by (simp add: w')
  then have "getProp (JObj r) propertyKey w'' = (Inr (Map_get (services w) token), w'')"
    using recv(1,3) by (simp add: getProp_accessor)
  then have "reads n (JObj r) propertyKey w'' =
             (replicate n (Inr (Map_get (services w) token)), w'')"
    by (rule reads_unchanged)
  then show ?thesis
    using t by (simp add: w' resolve_result)
qed

text \<open>
  C3 at \<open>LoggerFactory.configService\<close>: the factory object is constructed after the
  decoration and \<open>ConfigService\<close> is registered anew; three reads still return the
  instance resolved at decoration.
\<close>

theorem Inject_resolves_once_witness:
  "resolutions (snd (Inject ConfigService LoggerFactory ''configService''
       (snd (Injectable (\<lambda>C this. ok ()) ConfigService world0)))) = [ConfigService]
   \<and> reads 3 (JObj 1) ''configService''
       (snd (register ConfigService (JObj 1)
         (snd (Injectable (\<lambda>C this. ok ()) LoggerFactory
           (snd (Inject ConfigService LoggerFactory ''configService''
             (snd (Injectable (\<lambda>C this. ok ()) ConfigService world0)))))))) =
     ([Inr (JObj 0), Inr (JObj 0), Inr (JObj 0)],
      snd (register ConfigService (JObj 1)
         (snd (Injectable (\<lambda>C this. ok ()) LoggerFactory
           (snd (Inject ConfigService LoggerFactory ''configService''
             (snd (Injectable (\<lambda>C this. ok ()) ConfigService world0))))))))"
proof -
  define w :: "cls world" where "w = snd (Injectable (\<lambda>C this. ok ()) ConfigService world0)"
  define w' where "w' = snd (Inject ConfigService LoggerFactory ''configService'' w)"
  define w'' where
    "w'' = snd (register ConfigService (JObj 1) (snd (Injectable (\<lambda>C this. ok ()) LoggerFactory w')))"
  have w: "w = \<lparr>services = [ConfigService \<mapsto> JObj 0],
                 heap = [\<lparr>class_of = ConfigService, own = Map.empty\<rparr>],
                 accessors = Map.empty, console = [], resolutions = []\<rparr>"
    by (simp add: w_def Injectable_def new_def andThen_def ok_def register_def world0_def)
  have inj: "Inject ConfigService LoggerFactory ''configService'' w = (Inr (), w')"
    by (simp add: w'_def w Inject_result Map_get_def)
  have w': "w' = w\<lparr>resolutions := [ConfigService],
                    accessors := [(LoggerFactory, ''configService'') \<mapsto> JObj 0]\<rparr>"
    by (simp add: w'_def w Inject_result Map_get_def)
  have w'': "w'' = w'\<lparr>heap := heap w' @ [\<lparr>class_of = LoggerFactory, own = Map.empty\<rparr>],
                      services := (services w')(LoggerFactory \<mapsto> JObj 1, ConfigService \<mapsto> JObj 1)\<rparr>"
    by (simp add: w''_def w' w Injectable_def new_def andThen_def ok_def register_def)
  have kept: "accessors w'' (LoggerFactory, ''configService'') =
              accessors w' (LoggerFactory, ''configService'')"
    by (simp add: w'')
  have recv: "1 < length (heap w'')" "class_of (heap w'' ! 1) = LoggerFactory"
    "own (heap w'' ! 1) ''configService'' = None"
    by (simp_all add: w'' w' w)
  have "Map_get (services w) ConfigService = JObj 0"
    by (simp add: w Map_get_def)
  with Inject_resolves_once [OF inj kept recv, of 3]
  have "resolutions w' = [ConfigService]
    \<and> reads 3 (JObj 1) ''configService'' w'' = ([Inr (JObj 0), Inr (JObj 0), Inr (JObj 0)], w'')"
    by (simp add: w numeral_3_eq_3)
  then show ?thesis
    by (simp add: w''_def w'_def w_def)
qed

text \<open>
  Claim C6, as the code has it. \<open>Injectable\<close> allocates one fresh object of the
  class and runs the constructor body on it. When the body raises, \<open>Injectable\<close>
  raises the same error and ends in the state the body left: the decorator itself
  registers nothing, and the registry is as the body left it. When the body returns,
  that object is registered under the class, on top of what the body left, and
  \<open>resolve\<close> returns it. So for a body that does not write the registry itself, the
  registry is unchanged in the first case and gains exactly the entry of the class in
  the second. Nothing is rolled back.
\<close>

theorem Injectable_all_or_nothing:
  assumes body: "ctor C (JObj (length (heap w)))
                   (w\<lparr>heap := heap w @ [\<lparr>class_of = C, own = Map.empty\<rparr>]\<rparr>) = (res, w')"
  shows "(case res of
            Inl e \<Rightarrow>
              Injectable ctor C w = (Inl e, w')
              \<and> services (snd (Injectable ctor C w)) = services w'
          | Inr u \<Rightarrow>
              Injectable ctor C w =
                (Inr (), w'\<lparr>services := (services w')(C \<mapsto> JObj (length (heap w)))\<rparr>)
              \<and> services (snd (Injectable ctor C w)) =
                  (services w')(C \<mapsto> JObj (length (heap w)))
              \<and> fst (resolve C (snd (Injectable ctor C w))) = Inr (JObj (length (heap w))))
         \<and> (services w' = services w \<longrightarrow>
              services (snd (Injectable ctor C w)) =
                (case res of
                   Inl e \<Rightarrow> services w
                 | Inr u \<Rightarrow> (services w)(C \<mapsto> JObj (length (heap w)))))"
  using body
  by (cases res)
     (simp_all add: Injectable_def new_def andThen_def ok_def register_def resolve_result
        Map_get_def Let_def)

text \<open>C6 at a constructor that raises and at \<open>ConfigService\<close>, from the empty state.\<close>

theorem Injectable_all_or_nothing_witness:
  "Injectable (\<lambda>C this. throw TypeError) Main world0 =
     (Inl TypeError, world0\<lparr>heap := [\<lparr>class_of = Main, own = Map.empty\<rparr>]\<rparr>)
   \<and> services (snd (Injectable (\<lambda>C this. throw TypeError) Main (world0 :: cls world))) =
       Map.empty
   \<and> Injectable (constructors getEnvConfig) ConfigService world0 =
     (Inr (), world0\<lparr>heap := [\<lparr>class_of = ConfigService, own = Map.empty\<rparr>],
                     services := [ConfigService \<mapsto> JObj 0]\<rparr>)"
proof -
  note thrown = Injectable_all_or_nothing
      [of "\<lambda>C this. throw TypeError" Main "world0 :: cls world" "Inl TypeError"
          "world0\<lparr>heap := [\<lparr>class_of = Main, own = Map.empty\<rparr>]\<rparr>"]
  note built = Injectable_all_or_nothing
      [of "constructors getEnvConfig" ConfigService "world0 :: cls world" "Inr ()"
          "world0\<lparr>heap := [\<lparr>class_of = ConfigService, own = Map.empty\<rparr>]\<rparr>"]
  show ?thesis
    using thrown built
    by (simp add: throw_def constructors_def ok_def world0_def)
qed

text \<open>
  C6 as stated (when construction throws, the registry is left unchanged) fails for a
  constructor that registers its object and then raises: \<open>Injectable\<close> raises, and
  the entry the constructor wrote under \<open>Main\<close> is still there, where there was none.
\<close>

theorem Injectable_constructor_registers_then_throws:
  "fst (Injectable (\<lambda>C this. andThen (register C this) (\<lambda>u. throw TypeError)) Main
          (world0 :: cls world)) = Inl TypeError
   \<and> services (world0 :: cls world) Main = None
   \<and> services (snd (Injectable (\<lambda>C this. andThen (register C this) (\<lambda>u. throw TypeError)) Main
          (world0 :: cls world))) Main = Some (JObj 0)"
  by (simp add: Injectable_def new_def andThen_def register_def throw_def world0_def)

section \<open>The example, end to end\<close>

text \<open>
  The example is compiled with the experimental decorators the README names, for
  ES2016: a property declared without initialiser emits nothing, so the getter on the
  prototype is what a read of the property finds.
\<close>

lemmas run_defs = program_def declarations_def andThen_def Injectable_def new_def register_def
  resolve_def Inject_def defineProperty_def constructors_def ok_def throw_def world0_def
  console_clear_def Map_get_def UserService_constructor_def getProp_def setProp_def setOwn_def
  call_getLogger_def getLogger_def classOf_def call_getEnvConfig_def
  call_init_def init_def call_login_def login_def call_log_def ConsoleLoggerService_log_def
  FileLoggerService_log_def CloudLoggerService_log_def
  console_log_def call_updateUserName_def updateUserName_def call_logOut_def logOut_def

lemma snd_getProp: "snd (getProp v key w) = w"
  by (simp add: getProp_def split: jsval.splits option.splits)

lemma getLogger_selects:
  assumes "fst (getProp recv ''configService'' w) = Inr configService"
      and "classOf w configService = Some ConfigService"
  shows "getLogger envConfig recv w =
           (if envConfig ''loggerConfig'' = ''console'' then getProp recv ''consoleLogger'' w
            else if envConfig ''loggerConfig'' = ''file'' then getProp recv ''fileLogger'' w
            else if envConfig ''loggerConfig'' = ''cloud'' then getProp recv ''cloudLogger'' w
            else (Inl (Error [Lit ''unknown logger service instance'']), w))"
proof -
  have "getProp recv ''configService'' w = (Inr configService, w)"
    using assms(1) snd_getProp [of recv "''configService''" w]
    by (cases "getProp recv ''configService'' w") simp
  then show ?thesis
    using assms(2)
    by (simp add: getLogger_def andThen_def call_getEnvConfig_def throw_def)
qed

text \<open>
  Claim C7. With the classes declared in the order of the source and
  \<^verbatim>\<open>getEnvConfig\<close> returning \<^verbatim>\<open>console\<close>, the module runs to its end without raising
  and the console holds exactly the three lines, in this order.
\<close>

theorem program_console_output:
  "fst (program getEnvConfig world0) = Inr ()
   \<and> console (snd (program getEnvConfig world0)) =
    [''[console]: logging in user with john and john@123'',
     ''[console]: updating username bob'',
     ''[console]: logging out user'']"
  by (simp add: run_defs getEnvConfig_def)

text \<open>
  Claim C8. With a configuration that reports \<^verbatim>\<open>file\<close> for \<^verbatim>\<open>loggerConfig\<close> and
  nothing else changed, the module runs to its end and the three lines carry the
  \<^verbatim>\<open>[file]:\<close> prefix; \<open>getLogger\<close> on the registered factory returns the object
  registered under \<open>FileLoggerService\<close>. In any state, whatever the order in which it
  was built, \<open>getLogger\<close> with such a configuration returns what the receiver's
  \<^verbatim>\<open>fileLogger\<close> property holds.
\<close>

theorem program_file_output:
  assumes "envConfig ''loggerConfig'' = ''file''"
  shows "fst (program envConfig world0) = Inr ()
   \<and> console (snd (program envConfig world0)) =
    [''[file]: logging in user with john and john@123'',
     ''[file]: updating username bob'',
     ''[file]: logging out user'']
   \<and> services (snd (declarations envConfig world0)) LoggerFactory = Some (JObj 4)
   \<and> services (snd (declarations envConfig world0)) FileLoggerService = Some (JObj 2)
   \<and> fst (call_getLogger envConfig (JObj 4) (snd (declarations envConfig world0))) = Inr (JObj 2)
   \<and> (\<forall>recv w configService.
        fst (getProp recv ''configService'' w) = Inr configService \<longrightarrow>
        classOf w configService = Some ConfigService \<longrightarrow>
        getLogger envConfig recv w = getProp recv ''fileLogger'' w)"
proof -
  have run: "fst (program envConfig world0) = Inr ()
   \<and> console (snd (program envConfig world0)) =
    [''[file]: logging in user with john and john@123'',
     ''[file]: updating username bob'',
     ''[file]: logging out user'']
   \<and> services (snd (declarations envConfig world0)) LoggerFactory = Some (JObj 4)
   \<and> services (snd (declarations envConfig world0)) FileLoggerService = Some (JObj 2)
   \<and> fst (call_getLogger envConfig (JObj 4) (snd (declarations envConfig world0))) = Inr (JObj 2)"
    using assms by (simp add: run_defs)
  have "getLogger envConfig recv w = getProp recv ''fileLogger'' w"
    if "fst (getProp recv ''configService'' w) = Inr configService"
      and "classOf w configService = Some ConfigService"
    for recv w configService
    using getLogger_selects [OF that, of envConfig] assms by simp
  with run show ?thesis by blast
qed

text \<open>
  C8 at the constant configuration \<^verbatim>\<open>file\<close>, and at a state built with the classes
  declared and the properties decorated in another order: the file logger is then the
  first object, and it is the one \<open>getLogger\<close> returns.
\<close>

theorem program_file_output_witness:
  "console (snd (program (\<lambda>configName. ''file'') world0)) =
    [''[file]: logging in user with john and john@123'',
     ''[file]: updating username bob'',
     ''[file]: logging out user'']
   \<and> getLogger (\<lambda>configName. ''file'') (JObj 4)
        (snd (runAll
          [Injectable (constructors (\<lambda>configName. ''file'')) FileLoggerService,
           Injectable (constructors (\<lambda>configName. ''file'')) CloudLoggerService,
           Injectable (constructors (\<lambda>configName. ''file'')) ConsoleLoggerService,
           Injectable (constructors (\<lambda>configName. ''file'')) ConfigService,
           Inject CloudLoggerService LoggerFactory ''cloudLogger'',
           Inject FileLoggerService LoggerFactory ''fileLogger'',
           Inject ConsoleLoggerService LoggerFactory ''consoleLogger'',
           Inject ConfigService LoggerFactory ''configService'',
           Injectable (constructors (\<lambda>configName. ''file'')) LoggerFactory] world0)) =
       (Inr (JObj 0),
        snd (runAll
          [Injectable (constructors (\<lambda>configName. ''file'')) FileLoggerService,
           Injectable (constructors (\<lambda>configName. ''file'')) CloudLoggerService,
           Injectable (constructors (\<lambda>configName. ''file'')) ConsoleLoggerService,
           Injectable (constructors (\<lambda>configName. ''file'')) ConfigService,
           Inject CloudLoggerService LoggerFactory ''cloudLogger'',
           Inject FileLoggerService LoggerFactory ''fileLogger'',
           Inject ConsoleLoggerService LoggerFactory ''consoleLogger'',
           Inject ConfigService LoggerFactory ''configService'',
           Injectable (constructors (\<lambda>configName. ''file'')) LoggerFactory] world0))"
proof -
  define w :: "cls world" where "w = snd (runAll
          [Injectable (constructors (\<lambda>configName. ''file'')) FileLoggerService,
           Injectable (constructors (\<lambda>configName. ''file'')) CloudLoggerService,
           Injectable (constructors (\<lambda>configName. ''file'')) ConsoleLoggerService,
           Injectable (constructors (\<lambda>configName. ''file'')) ConfigService,
           Inject CloudLoggerService LoggerFactory ''cloudLogger'',
           Inject FileLoggerService LoggerFactory ''fileLogger'',
           Inject ConsoleLoggerService LoggerFactory ''consoleLogger'',
           Inject ConfigService LoggerFactory ''configService'',
           Injectable (constructors (\<lambda>configName. ''file'')) LoggerFactory] world0)"
  have f: "(\<lambda>configName. ''file'') ''loggerConfig'' = ''file''" by simp
  have c: "fst (getProp (JObj 4) ''configService'' w) = Inr (JObj 3)"
          "classOf w (JObj 3) = Some ConfigService"
    by (simp_all add: w_def run_defs)
  have g: "getProp (JObj 4) ''fileLogger'' w = (Inr (JObj 0), w)"
    by (simp add: w_def run_defs)
  from program_file_output [of "\<lambda>configName. ''file''", OF f] c g
  have "console (snd (program (\<lambda>configName. ''file'') world0)) =
    [''[file]: logging in user with john and john@123'',
     ''[file]: updating username bob'',
     ''[file]: logging out user'']
    \<and> getLogger (\<lambda>configName. ''file'') (JObj 4) w = (Inr (JObj 0), w)"
    by metis
  then show ?thesis
    unfolding w_def .
qed

text \<open>
  Claim C9, as the code has it. When the configuration reports a value other than
  \<^verbatim>\<open>console\<close>, \<^verbatim>\<open>file\<close> and \<^verbatim>\<open>cloud\<close>, \<open>getLogger\<close> (on a receiver whose
  \<^verbatim>\<open>configService\<close> property holds a \<open>ConfigService\<close> object) picks no logger and
  raises an error. Its message is the fixed text \<^verbatim>\<open>unknown logger service instance\<close>,
  whatever the value was.
\<close>

theorem getLogger_unknown_config:
  assumes unknown: "envConfig ''loggerConfig'' \<noteq> ''console''"
                   "envConfig ''loggerConfig'' \<noteq> ''file''"
                   "envConfig ''loggerConfig'' \<noteq> ''cloud''"
      and config: "fst (getProp recv ''configService'' w) = Inr configService"
                  "classOf w configService = Some ConfigService"
  shows "getLogger envConfig recv w = (Inl (Error [Lit ''unknown logger service instance'']), w)
         \<and> render toString [Lit ''unknown logger service instance''] =
             ''unknown logger service instance''"
  using getLogger_selects [OF config, of envConfig] unknown
  by (simp add: render_def)

text \<open>
  C9 at a configuration that reports \<^verbatim>\<open>xml\<close>: \<open>getLogger\<close> on the registered factory
  raises; the module stops at the declaration of \<open>UserService\<close>, whose constructor
  calls it, and nothing is printed.
\<close>

theorem getLogger_unknown_config_witness:
  "getLogger (\<lambda>configName. ''xml'') (JObj 4) (snd (declarations (\<lambda>configName. ''xml'') world0)) =
     (Inl (Error [Lit ''unknown logger service instance'']),
      snd (declarations (\<lambda>configName. ''xml'') world0))
   \<and> fst (program (\<lambda>configName. ''xml'') world0) =
       Inl (Error [Lit ''unknown logger service instance''])
   \<and> console (snd (program (\<lambda>configName. ''xml'') world0)) = []"
proof -
  have u: "(\<lambda>configName. ''xml'') ''loggerConfig'' \<noteq> ''console''"
          "(\<lambda>configName. ''xml'') ''loggerConfig'' \<noteq> ''file''"
          "(\<lambda>configName. ''xml'') ''loggerConfig'' \<noteq> ''cloud''"
    by simp_all
  have c: "fst (getProp (JObj 4) ''configService''
             (snd (declarations (\<lambda>configName. ''xml'') world0))) = Inr (JObj 0)"
          "classOf (snd (declarations (\<lambda>configName. ''xml'') world0)) (JObj 0) = Some ConfigService"
    by (simp_all add: run_defs)
  have p: "fst (program (\<lambda>configName. ''xml'') world0) =
       Inl (Error [Lit ''unknown logger service instance''])
   \<and> console (snd (program (\<lambda>configName. ''xml'') world0)) = []"
    by (simp add: run_defs)
  from getLogger_unknown_config [of "\<lambda>configName. ''xml''", OF u c] p show ?thesis by blast
qed

text \<open>
  C9 as stated (the message identifies the unrecognized value) fails: the values
  \<^verbatim>\<open>xml\<close> and \<^verbatim>\<open>db\<close> raise the same error, with the same message, which names
  neither.
\<close>

theorem getLogger_message_same:
  "fst (getLogger (\<lambda>configName. ''xml'') (JObj 4) (snd (declarations getEnvConfig world0))) =
     Inl (Error [Lit ''unknown logger service instance''])
   \<and> fst (getLogger (\<lambda>configName. ''db'') (JObj 4) (snd (declarations getEnvConfig world0))) =
     Inl (Error [Lit ''unknown logger service instance''])"
  by (simp add: run_defs getEnvConfig_def)

text \<open>
  Over the whole run the container is asked once for each injected property and once for
  \<open>Main\<close>; the nine property reads that follow add nothing.
\<close>

lemma program_resolutions:
  "resolutions (snd (program getEnvConfig world0)) =
     [ConfigService, ConsoleLoggerService, FileLoggerService, CloudLoggerService,
      LoggerFactory, UserService, Main]"
  by (simp add: run_defs getEnvConfig_def)

end
